theory Spec2Isabelle
  imports Main "HOL-Library.List_Lexorder" "HOL-Library.Char_ord"
begin

section \<open>Values and records exchanged through the storage contract\<close>

text \<open>
  The storage layer receives JSON request bodies and a route parameter. A field of a
  request object is absent (reading it gives \<open>undefined\<close>), \<open>null\<close> or a string;
  the data model of the repository has no other field type. \<open>truthy\<close> is JavaScript's
  truthiness on these values, \<open>js_or a b\<close> is \<open>a || b\<close>.
\<close>

datatype jsval = Undefined | Null | Str string

fun truthy :: "jsval \<Rightarrow> bool" where
  "truthy Undefined = False"
| "truthy Null = False"
| "truthy (Str s) = (s \<noteq> [])"

definition js_or :: "jsval \<Rightarrow> jsval \<Rightarrow> jsval" where
  "js_or a b = (if truthy a then a else b)"

text \<open>
  A group object \<open>{id, name, description}\<close> and a video object
  \<open>{id, groupId, url, username, caption, description}\<close>. A patch is an object of the
  same shape in which any field may be absent.
\<close>

record group =
  g_id :: jsval
  g_name :: jsval
  g_description :: jsval

record video =
  v_id :: jsval
  v_groupId :: jsval
  v_url :: jsval
  v_username :: jsval
  v_caption :: jsval
  v_description :: jsval

text \<open>The dataset \<open>{groups: [...], videos: [...]}\<close>.\<close>

record data =
  groups :: "group list"
  videos :: "video list"

text \<open>
  Object spread \<open>{...a, ...b}\<close>: every field present in \<open>b\<close> replaces the field of
  \<open>a\<close>, every field absent from \<open>b\<close> keeps the value it has in \<open>a\<close>.
\<close>

definition spread_field :: "jsval \<Rightarrow> jsval \<Rightarrow> jsval" where
  "spread_field old new = (if new = Undefined then old else new)"

definition spread_group :: "group \<Rightarrow> group \<Rightarrow> group" where
  "spread_group a b =
     \<lparr> g_id = spread_field (g_id a) (g_id b),
       g_name = spread_field (g_name a) (g_name b),
       g_description = spread_field (g_description a) (g_description b) \<rparr>"

definition spread_video :: "video \<Rightarrow> video \<Rightarrow> video" where
  "spread_video a b =
     \<lparr> v_id = spread_field (v_id a) (v_id b),
       v_groupId = spread_field (v_groupId a) (v_groupId b),
       v_url = spread_field (v_url a) (v_url b),
       v_username = spread_field (v_username a) (v_username b),
       v_caption = spread_field (v_caption a) (v_caption b),
       v_description = spread_field (v_description a) (v_description b) \<rparr>"

text \<open>\<open>Array.prototype.findIndex\<close>; the result \<open>-1\<close> is \<open>None\<close>.\<close>

fun findIndex :: "('a \<Rightarrow> bool) \<Rightarrow> 'a list \<Rightarrow> nat option" where
  "findIndex p [] = None"
| "findIndex p (x # xs) = (if p x then Some 0 else map_option Suc (findIndex p xs))"

text \<open>\<open>xs.splice(i, 1)\<close> for an index inside the array.\<close>

definition splice1 :: "nat \<Rightarrow> 'a list \<Rightarrow> 'a list" where
  "splice1 i xs = take i xs @ drop (Suc i) xs"

text \<open>
  \<open>Number.prototype.toString\<close> on a non-negative integer: its decimal digits, most
  significant first, without leading zeros.
\<close>

definition digit :: "nat \<Rightarrow> char" where
  "digit n = ''0123456789'' ! n"

fun toString :: "nat \<Rightarrow> string" where
  "toString n = (if n < 10 then [digit n] else toString (n div 10) @ [digit (n mod 10)])"

declare toString.simps [simp del]

section \<open>The flat-file backend (\<open>fileStorage\<close>)\<close>

text \<open>
  The state is the JSON document in \<open>data.json\<close>. Every operation reads the whole
  document, changes the copy and writes it back; an operation is modelled as a function
  from the document before the call to the document after it and the value returned.
  The document is a dataset with both arrays, as \<open>init\<close> creates it and as every
  operation below leaves it; failures of the file system are outside the model. The
  reading of the clock in \<open>createVideo\<close> (\<open>Date.now()\<close>, milliseconds) is a parameter.
\<close>

definition file_getData :: "data \<Rightarrow> data" where
  "file_getData d = d"

definition file_saveData :: "data \<Rightarrow> data \<Rightarrow> data" where
  "file_saveData d new = new"

definition file_getGroups :: "data \<Rightarrow> group list" where
  "file_getGroups d = groups (file_getData d)"

definition file_createGroup :: "data \<Rightarrow> group \<Rightarrow> data \<times> group" where
  "file_createGroup d g =
     (let dat = file_getData d;
          dat' = dat\<lparr>groups := groups dat @ [g]\<rparr>
      in (file_saveData d dat', g))"

definition file_updateGroup :: "data \<Rightarrow> string \<Rightarrow> group \<Rightarrow> data \<times> group option" where
  "file_updateGroup d gid updates =
     (let dat = file_getData d in
      case findIndex (\<lambda>g. g_id g = Str gid) (groups dat) of
        None \<Rightarrow> (d, None)
      | Some index \<Rightarrow>
          let vs = (if truthy (g_id updates) \<and> g_id updates \<noteq> Str gid
                    then map (\<lambda>v. if v_groupId v = Str gid
                                   then v\<lparr>v_groupId := g_id updates\<rparr> else v) (videos dat)
                    else videos dat);
              g' = spread_group (groups dat ! index) updates;
              dat' = \<lparr> groups = (groups dat)[index := g'], videos = vs \<rparr>
          in (file_saveData d dat', Some g'))"

definition file_deleteGroup :: "data \<Rightarrow> string \<Rightarrow> data \<times> bool" where
  "file_deleteGroup d gid =
     (let dat = file_getData d in
      case findIndex (\<lambda>g. g_id g = Str gid) (groups dat) of
        None \<Rightarrow> (d, False)
      | Some index \<Rightarrow>
          let dat' = \<lparr> groups = splice1 index (groups dat),
                        videos = filter (\<lambda>v. v_groupId v \<noteq> Str gid) (videos dat) \<rparr>
          in (file_saveData d dat', True))"

definition file_getVideos :: "data \<Rightarrow> video list" where
  "file_getVideos d = videos (file_getData d)"

definition file_createVideo :: "nat \<Rightarrow> data \<Rightarrow> video \<Rightarrow> data \<times> video" where
  "file_createVideo now d v =
     (let dat = file_getData d;
          v' = v\<lparr>v_id := Str (toString now)\<rparr>;
          dat' = dat\<lparr>videos := videos dat @ [v']\<rparr>
      in (file_saveData d dat', v'))"

definition file_updateVideo :: "data \<Rightarrow> string \<Rightarrow> video \<Rightarrow> data \<times> video option" where
  "file_updateVideo d vid updates =
     (let dat = file_getData d in
      case findIndex (\<lambda>v. v_id v = Str vid) (videos dat) of
        None \<Rightarrow> (d, None)
      | Some index \<Rightarrow>
          let v' = spread_video (videos dat ! index) updates;
              dat' = dat\<lparr>videos := (videos dat)[index := v']\<rparr>
          in (file_saveData d dat', Some v'))"

definition file_deleteVideo :: "data \<Rightarrow> string \<Rightarrow> data \<times> bool" where
  "file_deleteVideo d vid =
     (let dat = file_getData d in
      case findIndex (\<lambda>v. v_id v = Str vid) (videos dat) of
        None \<Rightarrow> (d, False)
      | Some index \<Rightarrow>
          (file_saveData d (dat\<lparr>videos := splice1 index (videos dat)\<rparr>), True))"

section \<open>The relational backend (\<open>createPgStorage\<close>)\<close>

text \<open>
  The state is the database that \<open>init\<close> creates:
  \<^verbatim>\<open>groups (id VARCHAR(255) PRIMARY KEY, name VARCHAR(255) NOT NULL, description TEXT)\<close>
  and
  \<^verbatim>\<open>videos (id SERIAL PRIMARY KEY, group_id VARCHAR(255) REFERENCES groups(id) ON DELETE CASCADE,
    url TEXT NOT NULL, username VARCHAR(255) NOT NULL, caption TEXT, description TEXT)\<close>,
  with the sequence behind \<open>SERIAL\<close>. A nullable column is an \<open>option\<close>. Every
  \<open>pool.query\<close> is one statement in its own transaction: a statement that fails
  leaves the tables as they were. The connection itself never fails in the model.
\<close>

record group_row =
  r_id :: string
  r_name :: string
  r_description :: "string option"

record video_row =
  vr_id :: nat
  vr_group_id :: "string option"
  vr_url :: string
  vr_username :: string
  vr_caption :: "string option"
  vr_description :: "string option"

record db =
  groups_tbl :: "group_row list"
  videos_tbl :: "video_row list"
  videos_id_seq :: nat

text \<open>
  What a call can throw: the errors of the database (named by their PostgreSQL
  conditions; \<open>UniqueViolation\<close> is the duplicate key of a primary key) and
  JavaScript's \<open>TypeError\<close>.
\<close>

datatype error =
    TypeError
  | StringDataRightTruncation
  | NotNullViolation
  | UniqueViolation
  | ForeignKeyViolation
  | InvalidTextRepresentation
  | SequenceLimitExceeded

text \<open>
  A query parameter: the driver sends \<open>undefined\<close> and \<open>null\<close> as SQL \<open>NULL\<close>.
  \<open>from_sql\<close> is the way back, a \<open>NULL\<close> column read as \<open>null\<close>.
\<close>

fun to_param :: "jsval \<Rightarrow> string option" where
  "to_param Undefined = None"
| "to_param Null = None"
| "to_param (Str s) = Some s"

fun from_sql :: "string option \<Rightarrow> jsval" where
  "from_sql None = Null"
| "from_sql (Some s) = Str s"

text \<open>
  Storing into a \<open>VARCHAR(255)\<close> column: a longer string is an error, unless all
  characters past the 255th are spaces, which are then cut off.
\<close>

definition varchar255 :: "string option \<Rightarrow> error + string option" where
  "varchar255 p =
     (case p of
        None \<Rightarrow> Inr None
      | Some s \<Rightarrow>
          if length s \<le> 255 then Inr (Some s)
          else if list_all (\<lambda>c. c = CHR '' '') (drop 255 s) then Inr (Some (take 255 s))
          else Inl StringDataRightTruncation)"

text \<open>
  Reading a parameter as an \<open>INTEGER\<close> (the type of \<open>videos.id\<close>): a string of decimal
  digits within the range of the type; signs and surrounding blanks are not modelled.
\<close>

definition is_digit :: "char \<Rightarrow> bool" where
  "is_digit c = (c \<in> set ''0123456789'')"

definition digit_val :: "char \<Rightarrow> nat" where
  "digit_val c = (case findIndex (\<lambda>x. x = c) ''0123456789'' of Some i \<Rightarrow> i | None \<Rightarrow> 0)"

definition from_digits :: "string \<Rightarrow> nat" where
  "from_digits s = foldl (\<lambda>acc c. 10 * acc + digit_val c) 0 s"

definition int4in :: "string \<Rightarrow> error + nat" where
  "int4in s =
     (if s \<noteq> [] \<and> list_all is_digit s \<and> from_digits s \<le> 2147483647
      then Inr (from_digits s) else Inl InvalidTextRepresentation)"

subsection \<open>The statements\<close>

text \<open>\<^verbatim>\<open>INSERT INTO groups (id, name, description) VALUES ($1, $2, $3)\<close>\<close>

definition insert_group ::
  "db \<Rightarrow> string option \<Rightarrow> string option \<Rightarrow> string option \<Rightarrow> error + db" where
  "insert_group d p1 p2 p3 =
     (case varchar255 p1 of
        Inl e \<Rightarrow> Inl e
      | Inr i \<Rightarrow>
         (case varchar255 p2 of
            Inl e \<Rightarrow> Inl e
          | Inr n \<Rightarrow>
             (case (i, n) of
                (Some iv, Some nv) \<Rightarrow>
                  if iv \<in> set (map r_id (groups_tbl d)) then Inl UniqueViolation
                  else Inr (d\<lparr>groups_tbl := groups_tbl d @
                         [\<lparr> r_id = iv, r_name = nv, r_description = p3 \<rparr>]\<rparr>)
              | _ \<Rightarrow> Inl NotNullViolation)))"

text \<open>The foreign key of \<open>videos.group_id\<close>: \<open>NULL\<close>, or the id of a row of \<open>groups\<close>.\<close>

definition fk_ok :: "db \<Rightarrow> string option \<Rightarrow> bool" where
  "fk_ok d p = (case p of None \<Rightarrow> True | Some g \<Rightarrow> g \<in> set (map r_id (groups_tbl d)))"

text \<open>
  \<^verbatim>\<open>INSERT INTO videos (group_id, url, username, caption, description)
    VALUES ($1, $2, $3, $4, $5) RETURNING id\<close>.
  The id is the next value of the sequence; a value drawn by a statement that then fails
  is not given back.
\<close>

definition insert_video ::
  "db \<Rightarrow> string option \<Rightarrow> string option \<Rightarrow> string option \<Rightarrow> string option \<Rightarrow> string option
     \<Rightarrow> db \<times> (error + nat)" where
  "insert_video d p1 p2 p3 p4 p5 =
     (if videos_id_seq d \<ge> 2147483647 then (d, Inl SequenceLimitExceeded)
      else
        let n = videos_id_seq d + 1;
            d1 = d\<lparr>videos_id_seq := n\<rparr>
        in case varchar255 p1 of
             Inl e \<Rightarrow> (d1, Inl e)
           | Inr gi \<Rightarrow>
              (case varchar255 p3 of
                 Inl e \<Rightarrow> (d1, Inl e)
               | Inr un \<Rightarrow>
                  (case (p2, un) of
                     (Some uv, Some unv) \<Rightarrow>
                       if n \<in> set (map vr_id (videos_tbl d)) then (d1, Inl UniqueViolation)
                       else if fk_ok d gi
                       then (d1\<lparr>videos_tbl := videos_tbl d @
                               [\<lparr> vr_id = n, vr_group_id = gi, vr_url = uv, vr_username = unv,
                                  vr_caption = p4, vr_description = p5 \<rparr>]\<rparr>, Inr n)
                       else (d1, Inl ForeignKeyViolation)
                   | _ \<Rightarrow> (d1, Inl NotNullViolation))))"

text \<open>\<^verbatim>\<open>DELETE FROM videos\<close> and \<^verbatim>\<open>DELETE FROM groups\<close>; the second removes, by
  \<open>ON DELETE CASCADE\<close>, the videos that reference a deleted group.\<close>

definition delete_all_videos :: "db \<Rightarrow> db" where
  "delete_all_videos d = d\<lparr>videos_tbl := []\<rparr>"

definition delete_all_groups :: "db \<Rightarrow> db" where
  "delete_all_groups d =
     d\<lparr>groups_tbl := [],
       videos_tbl := filter (\<lambda>v. case vr_group_id v of
                                    None \<Rightarrow> True
                                  | Some g \<Rightarrow> \<not> (g \<in> set (map r_id (groups_tbl d))))
                       (videos_tbl d)\<rparr>"

text \<open>\<^verbatim>\<open>DELETE FROM groups WHERE id = $1\<close>, returning \<open>rowCount\<close>.\<close>

definition delete_group :: "db \<Rightarrow> string \<Rightarrow> db \<times> nat" where
  "delete_group d gid =
     (let n = length (filter (\<lambda>g. r_id g = gid) (groups_tbl d)) in
      if n = 0 then (d, 0)
      else (d\<lparr>groups_tbl := filter (\<lambda>g. r_id g \<noteq> gid) (groups_tbl d),
              videos_tbl := filter (\<lambda>v. vr_group_id v \<noteq> Some gid) (videos_tbl d)\<rparr>, n))"

text \<open>\<^verbatim>\<open>DELETE FROM videos WHERE id = $1\<close>, returning \<open>rowCount\<close>.\<close>

definition delete_video :: "db \<Rightarrow> string \<Rightarrow> db \<times> (error + nat)" where
  "delete_video d vid =
     (case int4in vid of
        Inl e \<Rightarrow> (d, Inl e)
      | Inr n \<Rightarrow>
          (d\<lparr>videos_tbl := filter (\<lambda>v. vr_id v \<noteq> n) (videos_tbl d)\<rparr>,
           Inr (length (filter (\<lambda>v. vr_id v = n) (videos_tbl d)))))"

text \<open>
  \<^verbatim>\<open>UPDATE groups SET id = $1, name = $2, description = $3 WHERE id = $4 RETURNING *\<close>.
  The primary key admits one row with the id \<open>$4\<close>. The foreign key of \<open>videos\<close> is
  declared without \<open>ON UPDATE\<close>, so its action is \<open>NO ACTION\<close>: changing the id of a
  group that a video references is an error.
\<close>

definition update_group ::
  "db \<Rightarrow> string option \<Rightarrow> string option \<Rightarrow> string option \<Rightarrow> string
     \<Rightarrow> db \<times> (error + group_row list)" where
  "update_group d p1 p2 p3 gid =
     (case varchar255 p1 of
        Inl e \<Rightarrow> (d, Inl e)
      | Inr i \<Rightarrow>
         (case varchar255 p2 of
            Inl e \<Rightarrow> (d, Inl e)
          | Inr n \<Rightarrow>
             if list_all (\<lambda>g. r_id g \<noteq> gid) (groups_tbl d) then (d, Inr [])
             else
               (case (i, n) of
                  (Some iv, Some nv) \<Rightarrow>
                    let r = \<lparr> r_id = iv, r_name = nv, r_description = p3 \<rparr> in
                    if iv \<noteq> gid \<and> iv \<in> set (map r_id (groups_tbl d))
                    then (d, Inl UniqueViolation)
                    else if iv \<noteq> gid \<and> list_ex (\<lambda>v. vr_group_id v = Some gid) (videos_tbl d)
                    then (d, Inl ForeignKeyViolation)
                    else (d\<lparr>groups_tbl := map (\<lambda>g. if r_id g = gid then r else g)
                                              (groups_tbl d)\<rparr>, Inr [r])
                | _ \<Rightarrow> (d, Inl NotNullViolation))))"

text \<open>
  \<^verbatim>\<open>UPDATE videos SET group_id = $1, url = $2, username = $3, caption = $4,
    description = $5 WHERE id = $6 RETURNING id, group_id as "groupId", ...\<close>
\<close>

definition update_video ::
  "db \<Rightarrow> string option \<Rightarrow> string option \<Rightarrow> string option \<Rightarrow> string option \<Rightarrow> string option
     \<Rightarrow> string \<Rightarrow> db \<times> (error + video_row list)" where
  "update_video d p1 p2 p3 p4 p5 vid =
     (case int4in vid of
        Inl e \<Rightarrow> (d, Inl e)
      | Inr k \<Rightarrow>
         (case varchar255 p1 of
            Inl e \<Rightarrow> (d, Inl e)
          | Inr gi \<Rightarrow>
             (case varchar255 p3 of
                Inl e \<Rightarrow> (d, Inl e)
              | Inr un \<Rightarrow>
                 if list_all (\<lambda>v. vr_id v \<noteq> k) (videos_tbl d) then (d, Inr [])
                 else
                   (case (p2, un) of
                      (Some uv, Some unv) \<Rightarrow>
                        let r = \<lparr> vr_id = k, vr_group_id = gi, vr_url = uv, vr_username = unv,
                                  vr_caption = p4, vr_description = p5 \<rparr> in
                        if fk_ok d gi
                        then (d\<lparr>videos_tbl := map (\<lambda>v. if vr_id v = k then r else v)
                                                  (videos_tbl d)\<rparr>, Inr [r])
                        else (d, Inl ForeignKeyViolation)
                    | _ \<Rightarrow> (d, Inl NotNullViolation)))))"

text \<open>\<^verbatim>\<open>SELECT * FROM groups ORDER BY name\<close> and
  \<^verbatim>\<open>SELECT id, group_id as "groupId", url, username, caption, description FROM videos ORDER BY id\<close>.
  Strings are ordered character by character (the collation of the database decides in
  practice); rows with equal keys stay in table order, which the database leaves open.\<close>

definition select_groups :: "db \<Rightarrow> group_row list" where
  "select_groups d = sort_key r_name (groups_tbl d)"

definition select_videos :: "db \<Rightarrow> video_row list" where
  "select_videos d = sort_key vr_id (videos_tbl d)"

subsection \<open>The adapter\<close>

text \<open>A result row as the object the driver returns; the video's numeric id becomes a
  string (\<open>v.id.toString()\<close>).\<close>

definition group_of_row :: "group_row \<Rightarrow> group" where
  "group_of_row r =
     \<lparr> g_id = Str (r_id r), g_name = Str (r_name r), g_description = from_sql (r_description r) \<rparr>"

definition video_of_row :: "video_row \<Rightarrow> video" where
  "video_of_row r =
     \<lparr> v_id = Str (toString (vr_id r)), v_groupId = from_sql (vr_group_id r),
       v_url = Str (vr_url r), v_username = Str (vr_username r),
       v_caption = from_sql (vr_caption r), v_description = from_sql (vr_description r) \<rparr>"

text \<open>The body of a bulk replace: either array may be missing from the request.\<close>

record payload =
  p_groups :: "group list option"
  p_videos :: "video list option"

definition pg_getGroups :: "db \<Rightarrow> group list" where
  "pg_getGroups d = map group_of_row (select_groups d)"

definition pg_getVideos :: "db \<Rightarrow> video list" where
  "pg_getVideos d = map video_of_row (select_videos d)"

definition pg_getData :: "db \<Rightarrow> data" where
  "pg_getData d = \<lparr> groups = pg_getGroups d, videos = pg_getVideos d \<rparr>"

text \<open>The two \<open>for ... of\<close> loops of \<open>saveData\<close>: one \<open>INSERT\<close> per element, stopping at
  the first that fails.\<close>

fun insert_groups :: "db \<Rightarrow> group list \<Rightarrow> db \<times> (error + unit)" where
  "insert_groups d [] = (d, Inr ())"
| "insert_groups d (g # gs) =
     (case insert_group d (to_param (g_id g)) (to_param (g_name g))
             (to_param (js_or (g_description g) Null)) of
        Inl e \<Rightarrow> (d, Inl e)
      | Inr d' \<Rightarrow> insert_groups d' gs)"

fun insert_videos :: "db \<Rightarrow> video list \<Rightarrow> db \<times> (error + unit)" where
  "insert_videos d [] = (d, Inr ())"
| "insert_videos d (v # vs) =
     (case insert_video d (to_param (v_groupId v)) (to_param (v_url v)) (to_param (v_username v))
             (to_param (js_or (v_caption v) Null)) (to_param (js_or (v_description v) Null)) of
        (d', Inl e) \<Rightarrow> (d', Inl e)
      | (d', Inr n) \<Rightarrow> insert_videos d' vs)"

text \<open>\<open>saveData\<close> of the adapter iterates over \<open>data.groups\<close> and \<open>data.videos\<close> as they
  are: iterating over \<open>undefined\<close> throws a \<open>TypeError\<close>, after the two \<open>DELETE\<close>s.\<close>

definition pg_saveData :: "db \<Rightarrow> payload \<Rightarrow> db \<times> (error + unit)" where
  "pg_saveData d dat =
     (let d1 = delete_all_videos d;
          d2 = delete_all_groups d1
      in case p_groups dat of
           None \<Rightarrow> (d2, Inl TypeError)
         | Some gs \<Rightarrow>
            (case insert_groups d2 gs of
               (d3, Inl e) \<Rightarrow> (d3, Inl e)
             | (d3, Inr u) \<Rightarrow>
                (case p_videos dat of
                   None \<Rightarrow> (d3, Inl TypeError)
                 | Some vs \<Rightarrow> insert_videos d3 vs)))"

definition pg_createGroup :: "db \<Rightarrow> group \<Rightarrow> db \<times> (error + group)" where
  "pg_createGroup d g =
     (case insert_group d (to_param (g_id g)) (to_param (g_name g))
             (to_param (js_or (g_description g) Null)) of
        Inl e \<Rightarrow> (d, Inl e)
      | Inr d' \<Rightarrow> (d', Inr g))"

text \<open>\<open>result.rows[0] || null\<close>: the first row, or \<open>None\<close> for \<open>null\<close>.\<close>

definition first_row :: "'a list \<Rightarrow> 'a option" where
  "first_row rows = (case rows of [] \<Rightarrow> None | r # rs \<Rightarrow> Some r)"

definition pg_updateGroup :: "db \<Rightarrow> string \<Rightarrow> group \<Rightarrow> db \<times> (error + group option)" where
  "pg_updateGroup d gid updates =
     (case update_group d (to_param (js_or (g_id updates) (Str gid))) (to_param (g_name updates))
             (to_param (js_or (g_description updates) Null)) gid of
        (d', Inl e) \<Rightarrow> (d', Inl e)
      | (d', Inr rows) \<Rightarrow> (d', Inr (map_option group_of_row (first_row rows))))"

definition pg_deleteGroup :: "db \<Rightarrow> string \<Rightarrow> db \<times> bool" where
  "pg_deleteGroup d gid = (case delete_group d gid of (d', n) \<Rightarrow> (d', n > 0))"

definition pg_createVideo :: "db \<Rightarrow> video \<Rightarrow> db \<times> (error + video)" where
  "pg_createVideo d v =
     (case insert_video d (to_param (v_groupId v)) (to_param (v_url v)) (to_param (v_username v))
             (to_param (js_or (v_caption v) Null)) (to_param (js_or (v_description v) Null)) of
        (d', Inl e) \<Rightarrow> (d', Inl e)
      | (d', Inr n) \<Rightarrow> (d', Inr (v\<lparr>v_id := Str (toString n)\<rparr>)))"

definition pg_updateVideo :: "db \<Rightarrow> string \<Rightarrow> video \<Rightarrow> db \<times> (error + video option)" where
  "pg_updateVideo d vid updates =
     (case update_video d (to_param (v_groupId updates)) (to_param (v_url updates))
             (to_param (v_username updates)) (to_param (js_or (v_caption updates) Null))
             (to_param (js_or (v_description updates) Null)) vid of
        (d', Inl e) \<Rightarrow> (d', Inl e)
      | (d', Inr rows) \<Rightarrow> (d', Inr (map_option video_of_row (first_row rows))))"

definition pg_deleteVideo :: "db \<Rightarrow> string \<Rightarrow> db \<times> (error + bool)" where
  "pg_deleteVideo d vid =
     (case delete_video d vid of
        (d', Inl e) \<Rightarrow> (d', Inl e)
      | (d', Inr n) \<Rightarrow> (d', Inr (n > 0)))"

section \<open>The standalone database module\<close>

text \<open>
  The second copy of the relational storage, the module the serverless handlers under
  \<open>api/\<close> import. Its functions take the pool from \<open>getPool()\<close>; the model is of a
  process with \<open>DATABASE_URL\<close> set, as \<open>createPgStorage\<close> is only built in one. The
  statements are the ones of the adapter; \<open>saveData\<close> reads
  \<open>data.groups || []\<close> and \<open>data.videos || []\<close>.
\<close>

definition or_empty :: "'a list option \<Rightarrow> 'a list" where
  "or_empty xs = (case xs of None \<Rightarrow> [] | Some ys \<Rightarrow> ys)"

definition db_getGroups :: "db \<Rightarrow> group list" where
  "db_getGroups d = map group_of_row (select_groups d)"

definition db_getVideos :: "db \<Rightarrow> video list" where
  "db_getVideos d = map video_of_row (select_videos d)"

definition db_getData :: "db \<Rightarrow> data" where
  "db_getData d =
     \<lparr> groups = map group_of_row (select_groups d), videos = map video_of_row (select_videos d) \<rparr>"

definition db_saveData :: "db \<Rightarrow> payload \<Rightarrow> db \<times> (error + unit)" where
  "db_saveData d dat =
     (let d1 = delete_all_videos d;
          d2 = delete_all_groups d1
      in case insert_groups d2 (or_empty (p_groups dat)) of
           (d3, Inl e) \<Rightarrow> (d3, Inl e)
         | (d3, Inr u) \<Rightarrow> insert_videos d3 (or_empty (p_videos dat)))"

definition db_createGroup :: "db \<Rightarrow> group \<Rightarrow> db \<times> (error + group)" where
  "db_createGroup d g =
     (case insert_group d (to_param (g_id g)) (to_param (g_name g))
             (to_param (js_or (g_description g) Null)) of
        Inl e \<Rightarrow> (d, Inl e)
      | Inr d' \<Rightarrow> (d', Inr g))"

definition db_updateGroup :: "db \<Rightarrow> string \<Rightarrow> group \<Rightarrow> db \<times> (error + group option)" where
  "db_updateGroup d gid updates =
     (case update_group d (to_param (js_or (g_id updates) (Str gid))) (to_param (g_name updates))
             (to_param (js_or (g_description updates) Null)) gid of
        (d', Inl e) \<Rightarrow> (d', Inl e)
      | (d', Inr rows) \<Rightarrow> (d', Inr (map_option group_of_row (first_row rows))))"

definition db_deleteGroup :: "db \<Rightarrow> string \<Rightarrow> db \<times> bool" where
  "db_deleteGroup d gid = (case delete_group d gid of (d', n) \<Rightarrow> (d', n > 0))"

definition db_createVideo :: "db \<Rightarrow> video \<Rightarrow> db \<times> (error + video)" where
  "db_createVideo d v =
     (case insert_video d (to_param (v_groupId v)) (to_param (v_url v)) (to_param (v_username v))
             (to_param (js_or (v_caption v) Null)) (to_param (js_or (v_description v) Null)) of
        (d', Inl e) \<Rightarrow> (d', Inl e)
      | (d', Inr n) \<Rightarrow> (d', Inr (v\<lparr>v_id := Str (toString n)\<rparr>)))"

definition db_updateVideo :: "db \<Rightarrow> string \<Rightarrow> video \<Rightarrow> db \<times> (error + video option)" where
  "db_updateVideo d vid updates =
     (case update_video d (to_param (v_groupId updates)) (to_param (v_url updates))
             (to_param (v_username updates)) (to_param (js_or (v_caption updates) Null))
             (to_param (js_or (v_description updates) Null)) vid of
        (d', Inl e) \<Rightarrow> (d', Inl e)
      | (d', Inr rows) \<Rightarrow> (d', Inr (map_option video_of_row (first_row rows))))"

definition db_deleteVideo :: "db \<Rightarrow> string \<Rightarrow> db \<times> (error + bool)" where
  "db_deleteVideo d vid =
     (case delete_video d vid of
        (d', Inl e) \<Rightarrow> (d', Inl e)
      | (d', Inr n) \<Rightarrow> (d', Inr (n > 0)))"

section \<open>Sample data\<close>

text \<open>
  The group \<open>{id: "g1", name: "Cats"}\<close> and the video
  \<open>{groupId: "g1", url: "http://x", username: "u"}\<close> of the scenario in the
  specification, a second group with a description, and a dataset holding the first
  group and the video in either backend.
\<close>

definition cats :: group where
  "cats = \<lparr> g_id = Str ''g1'', g_name = Str ''Cats'', g_description = Undefined \<rparr>"

definition dogs :: group where
  "dogs = \<lparr> g_id = Str ''g2'', g_name = Str ''Dogs'', g_description = Str ''barking'' \<rparr>"

definition clip :: video where
  "clip = \<lparr> v_id = Undefined, v_groupId = Str ''g1'', v_url = Str ''http://x'',
            v_username = Str ''u'', v_caption = Undefined, v_description = Undefined \<rparr>"

definition file0 :: data where
  "file0 = \<lparr> groups = [cats], videos = [clip\<lparr>v_id := Str ''1700000000000''\<rparr>] \<rparr>"

definition db0 :: db where
  "db0 = \<lparr> groups_tbl = [\<lparr> r_id = ''g1'', r_name = ''Cats'', r_description = None \<rparr>],
           videos_tbl = [\<lparr> vr_id = 1, vr_group_id = Some ''g1'', vr_url = ''http://x'',
                           vr_username = ''u'', vr_caption = None, vr_description = None \<rparr>],
           videos_id_seq = 1 \<rparr>"

definition db_empty :: db where
  "db_empty = \<lparr> groups_tbl = [], videos_tbl = [], videos_id_seq = 0 \<rparr>"

definition db_two :: db where
  "db_two = \<lparr> groups_tbl = [\<lparr> r_id = ''g2'', r_name = ''Dogs'', r_description = Some ''barking'' \<rparr>,
                            \<lparr> r_id = ''g1'', r_name = ''Cats'', r_description = None \<rparr>],
              videos_tbl = [], videos_id_seq = 0 \<rparr>"

definition db_dogs :: db where
  "db_dogs = \<lparr> groups_tbl = [\<lparr> r_id = ''g2'', r_name = ''Dogs'', r_description = Some ''barking'' \<rparr>],
               videos_tbl = [], videos_id_seq = 0 \<rparr>"

section \<open>Merging a patch\<close>

text \<open>
  What the specification asks of \<open>updateGroup\<close>, field by field: a field absent from the
  patch keeps its previous value, a field present in the patch takes the patch's value.
  \<open>fits255 x\<close> says that \<open>x\<close>, if a string, has at most 255 characters.
\<close>

definition merged :: "jsval \<Rightarrow> jsval \<Rightarrow> jsval \<Rightarrow> bool" where
  "merged old patch new = (if patch = Undefined then new = old else new = patch)"

definition fits255 :: "jsval \<Rightarrow> bool" where
  "fits255 x = (case x of Undefined \<Rightarrow> True | Null \<Rightarrow> True | Str s \<Rightarrow> length s \<le> 255)"

section \<open>Ordering by name\<close>

text \<open>
  What the specification asks of \<open>listGroups\<close>: each group's name is a string, and the
  names do not decrease along the list.
\<close>

fun name_le :: "jsval \<Rightarrow> jsval \<Rightarrow> bool" where
  "name_le (Str a) (Str b) = (a \<le> b)"
| "name_le x y = False"

definition ordered_by_name :: "group list \<Rightarrow> bool" where
  "ordered_by_name gs = sorted_wrt (\<lambda>a b. name_le (g_name a) (g_name b)) gs"

section \<open>Auxiliary facts\<close>

lemma findIndex_None_iff: "findIndex p xs = None \<longleftrightarrow> (\<forall>x \<in> set xs. \<not> p x)"
  by (induction xs) auto

lemma findIndex_Some_find:
  "findIndex p xs = Some i \<Longrightarrow> \<exists>x. find p xs = Some x \<and> splice1 i xs = remove1 x xs"
proof (induction xs arbitrary: i)
  case Nil
  then show ?case by simp
next
  case (Cons a xs)
  show ?case
  proof (cases "p a")
    case True
    with Cons.prems show ?thesis by (simp add: splice1_def)
  next
    case False
    with Cons.prems obtain j where j: "findIndex p xs = Some j" "i = Suc j"
      by auto
    from Cons.IH [OF j(1)] obtain x where x: "find p xs = Some x" "splice1 j xs = remove1 x xs"
      by blast
    from x(1) have "p x" by (auto simp: find_Some_iff)
    with False have "a \<noteq> x" by blast
    with False x j show ?thesis by (simp add: splice1_def)
  qed
qed

lemma digit_cases:
  "k < 10 \<Longrightarrow>
     k = 0 \<or> k = 1 \<or> k = 2 \<or> k = 3 \<or> k = 4 \<or> k = 5 \<or> k = 6 \<or> k = 7 \<or> k = 8 \<or> k = (9::nat)"
  by arith

lemma digit_val_digit: "k < 10 \<Longrightarrow> digit_val (digit k) = k"
  using digit_cases [of k] by (auto simp: digit_val_def digit_def)

lemma is_digit_digit: "k < 10 \<Longrightarrow> is_digit (digit k)"
  using digit_cases [of k] by (auto simp: is_digit_def digit_def)

lemma from_digits_snoc: "from_digits (s @ [c]) = 10 * from_digits s + digit_val c"
  by (simp add: from_digits_def)

text \<open>The decimal string determines the number: distinct numbers print differently.\<close>

lemma from_digits_toString: "from_digits (toString n) = n"
proof (induction n rule: toString.induct)
  case (1 n)
  show ?case
  proof (cases "n < 10")
    case True
    then show ?thesis
      by (subst toString.simps) (simp add: from_digits_def digit_val_digit)
  next
    case False
    with 1 have "from_digits (toString (n div 10)) = n div 10" by simp
    with False show ?thesis
      by (subst toString.simps) (simp add: from_digits_snoc digit_val_digit)
  qed
qed

lemma toString_inj: "toString m = toString n \<Longrightarrow> m = n"
  by (metis from_digits_toString)

lemma toString_digits: "toString n \<noteq> [] \<and> list_all is_digit (toString n)"
proof (induction n rule: toString.induct)
  case (1 n)
  show ?case
  proof (cases "n < 10")
    case True
    then show ?thesis
      by (subst (1 2) toString.simps) (simp add: is_digit_digit)
  next
    case False
    with 1 have "list_all is_digit (toString (n div 10))" by simp
    with False show ?thesis
      by (subst (1 2) toString.simps) (simp add: is_digit_digit)
  qed
qed

lemma int4in_toString: "n \<le> 2147483647 \<Longrightarrow> int4in (toString n) = Inr n"
  using toString_digits [of n] by (simp add: int4in_def from_digits_toString)

lemma varchar255_fits: "length s \<le> 255 \<Longrightarrow> varchar255 (Some s) = Inr (Some s)"
  by (simp add: varchar255_def)

lemma varchar255_None: "varchar255 None = Inr None"
  by (simp add: varchar255_def)

lemma varchar255_cases:
  "(\<exists>e. varchar255 p = Inl e) \<or> (\<exists>q. varchar255 p = Inr q \<and> (q = None \<longleftrightarrow> p = None))"
  by (cases p) (auto simp: varchar255_def)

lemma from_sql_to_param_or: "from_sql (to_param (js_or x Null)) = js_or x Null"
  by (cases x) (auto simp: js_or_def)

lemma count_sort_key: "length (filter P (sort_key f xs)) = length (filter P xs)"
  by (simp add: filter_sort)

lemma group_of_row_new:
  assumes "g_id g = Str i" "g_name g = Str n"
  shows "group_of_row \<lparr> r_id = i, r_name = n, r_description = to_param (js_or (g_description g) Null) \<rparr>
           = g\<lparr>g_description := js_or (g_description g) Null\<rparr>"
  using assms by (cases g) (simp add: group_of_row_def from_sql_to_param_or)

lemma video_of_row_new:
  assumes "v_groupId v = Str i" "v_url v = Str u" "v_username v = Str w"
  shows "video_of_row \<lparr> vr_id = k, vr_group_id = Some i, vr_url = u, vr_username = w,
                         vr_caption = to_param (js_or (v_caption v) Null),
                         vr_description = to_param (js_or (v_description v) Null) \<rparr>
         = v\<lparr>v_id := Str (toString k), v_caption := js_or (v_caption v) Null,
               v_description := js_or (v_description v) Null\<rparr>"
  using assms by (cases v) (simp add: video_of_row_def from_sql_to_param_or)

lemma findIndex_Some_nth:
  "findIndex p xs = Some i \<Longrightarrow> i < length xs \<and> p (xs ! i)"
proof (induction xs arbitrary: i)
  case Nil
  then show ?case by simp
next
  case (Cons a xs)
  then show ?case by (cases "p a") auto
qed

lemma to_param_Some: "to_param x = Some s \<longleftrightarrow> x = Str s"
  by (cases x) auto

lemma varchar255_param_fits: "fits255 x \<Longrightarrow> varchar255 (to_param x) = Inr (to_param x)"
  by (cases x) (simp_all add: fits255_def varchar255_def)

lemma int4in_Inr: "int4in s = Inr k \<Longrightarrow> k = from_digits s"
  by (auto simp: int4in_def split: if_splits)

lemma map_if_same_key:
  "f r = k \<Longrightarrow> map f (map (\<lambda>v. if f v = k then r else v) xs) = map f xs"
  by (induction xs) auto

section \<open>Deleting a group\<close>

lemma file_deleteGroup_absent:
  "Str gid \<notin> set (map g_id (groups d)) \<Longrightarrow> file_deleteGroup d gid = (d, False)"
proof -
  assume "Str gid \<notin> set (map g_id (groups d))"
  then have "findIndex (\<lambda>g. g_id g = Str gid) (groups d) = None"
    by (force simp: findIndex_None_iff)
  then show ?thesis
    by (simp add: file_deleteGroup_def file_getData_def)
qed

lemma file_deleteGroup_present:
  assumes "Str gid \<in> set (map g_id (groups d))"
  shows "\<exists>g. find (\<lambda>g. g_id g = Str gid) (groups d) = Some g \<and>
           file_deleteGroup d gid =
             (\<lparr> groups = remove1 g (groups d),
                videos = filter (\<lambda>v. v_groupId v \<noteq> Str gid) (videos d) \<rparr>, True)"
proof -
  from assms have "findIndex (\<lambda>g. g_id g = Str gid) (groups d) \<noteq> None"
    by (auto simp: findIndex_None_iff)
  then obtain i where i: "findIndex (\<lambda>g. g_id g = Str gid) (groups d) = Some i"
    by blast
  from findIndex_Some_find [OF i] obtain g where
    g: "find (\<lambda>g. g_id g = Str gid) (groups d) = Some g"
       "splice1 i (groups d) = remove1 g (groups d)"
    by blast
  from i g show ?thesis
    by (simp add: file_deleteGroup_def file_getData_def file_saveData_def)
qed

lemma pg_deleteGroup_absent:
  "gid \<notin> set (map r_id (groups_tbl b)) \<Longrightarrow> pg_deleteGroup b gid = (b, False)"
proof -
  assume "gid \<notin> set (map r_id (groups_tbl b))"
  then have "filter (\<lambda>g. r_id g = gid) (groups_tbl b) = []"
    by (auto simp: filter_empty_conv)
  then show ?thesis
    by (simp add: pg_deleteGroup_def delete_group_def)
qed

lemma pg_deleteGroup_present:
  assumes "gid \<in> set (map r_id (groups_tbl b))"
  shows "pg_deleteGroup b gid =
           (b\<lparr>groups_tbl := filter (\<lambda>g. r_id g \<noteq> gid) (groups_tbl b),
              videos_tbl := filter (\<lambda>v. vr_group_id v \<noteq> Some gid) (videos_tbl b)\<rparr>, True)"
proof -
  from assms have "filter (\<lambda>g. r_id g = gid) (groups_tbl b) \<noteq> []"
    by (auto simp: filter_empty_conv)
  then show ?thesis
    by (simp add: pg_deleteGroup_def delete_group_def Let_def)
qed

text \<open>
  C2. \<open>deleteGroup(id)\<close> returns \<open>false\<close> and leaves the dataset as it is when no group
  has the id. Otherwise it returns \<open>true\<close>, removes the group (in the file: the first
  group of the array with that id; in the database: the row with that id) and removes
  every video whose \<open>groupId\<close> is the id, keeping everything else in its order. This
  holds for the flat-file backend (document \<open>d\<close>) and the relational one (database \<open>b\<close>).
\<close>

theorem deleteGroup_cascade:
  "(Str gid \<notin> set (map g_id (groups d)) \<longrightarrow> file_deleteGroup d gid = (d, False)) \<and>
   (Str gid \<in> set (map g_id (groups d)) \<longrightarrow>
      (\<exists>g. find (\<lambda>g. g_id g = Str gid) (groups d) = Some g \<and>
           file_deleteGroup d gid =
             (\<lparr> groups = remove1 g (groups d),
                videos = filter (\<lambda>v. v_groupId v \<noteq> Str gid) (videos d) \<rparr>, True))) \<and>
   (gid \<notin> set (map r_id (groups_tbl b)) \<longrightarrow> pg_deleteGroup b gid = (b, False)) \<and>
   (gid \<in> set (map r_id (groups_tbl b)) \<longrightarrow>
      pg_deleteGroup b gid =
        (b\<lparr>groups_tbl := filter (\<lambda>g. r_id g \<noteq> gid) (groups_tbl b),
           videos_tbl := filter (\<lambda>v. vr_group_id v \<noteq> Some gid) (videos_tbl b)\<rparr>, True))"
  using file_deleteGroup_absent [of gid d] file_deleteGroup_present [of gid d]
    pg_deleteGroup_absent [of gid b] pg_deleteGroup_present [of gid b]
  by blast

theorem deleteGroup_cascade_witness:
  "file_deleteGroup file0 ''g1'' = (\<lparr> groups = [], videos = [] \<rparr>, True) \<and>
   file_deleteGroup file0 ''g9'' = (file0, False) \<and>
   pg_deleteGroup db0 ''g1'' = (\<lparr> groups_tbl = [], videos_tbl = [], videos_id_seq = 1 \<rparr>, True) \<and>
   pg_deleteGroup db0 ''g9'' = (db0, False)"
  using deleteGroup_cascade [of "''g1''" file0 db0] deleteGroup_cascade [of "''g9''" file0 db0]
  by (simp add: file0_def db0_def cats_def clip_def)

section \<open>Renaming a group\<close>

text \<open>
  The flat-file backend re-points the videos of a renamed group, as its comment says
  (\<open>Update video references if ID changed\<close>), whenever the new id is a non-empty string.
\<close>

lemma file_updateGroup_repoints:
  assumes "Str gid \<in> set (map g_id (groups d))" "truthy (g_id updates)" "g_id updates \<noteq> Str gid"
  shows "videos (fst (file_updateGroup d gid updates)) =
           map (\<lambda>v. if v_groupId v = Str gid then v\<lparr>v_groupId := g_id updates\<rparr> else v) (videos d)"
proof -
  from assms(1) have "findIndex (\<lambda>g. g_id g = Str gid) (groups d) \<noteq> None"
    by (auto simp: findIndex_None_iff)
  then obtain i where "findIndex (\<lambda>g. g_id g = Str gid) (groups d) = Some i"
    by blast
  with assms(2,3) show ?thesis
    by (simp add: file_updateGroup_def file_getData_def file_saveData_def Let_def)
qed

lemma file_updateGroup_rename_sample:
  "file_updateGroup file0 ''g1'' \<lparr> g_id = Str ''g2'', g_name = Str ''Cats'', g_description = Undefined \<rparr>
     = (\<lparr> groups = [cats\<lparr>g_id := Str ''g2''\<rparr>],
          videos = [clip\<lparr>v_id := Str ''1700000000000'', v_groupId := Str ''g2''\<rparr>] \<rparr>,
        Some (cats\<lparr>g_id := Str ''g2''\<rparr>))"
  by (simp add: file_updateGroup_def file_getData_def file_saveData_def file0_def cats_def clip_def
      spread_group_def spread_field_def Let_def)

text \<open>
  The relational backend sends the one \<open>UPDATE groups SET id = ...\<close> and nothing for
  \<open>videos\<close>. Whenever a video references the group, the statement is refused: the call
  throws and the database is as before, the videos still pointing to the old id and the
  group still carrying it.
\<close>

lemma pg_updateGroup_rename_referenced:
  assumes grp: "gid \<in> set (map r_id (groups_tbl b))"
    and ref: "Some gid \<in> set (map vr_group_id (videos_tbl b))"
    and new: "g_id updates = Str new" "new \<noteq> []" "new \<noteq> gid" "length new \<le> 255"
  shows "\<exists>e. pg_updateGroup b gid updates = (b, Inl e)"
proof -
  from grp have g: "\<not> list_all (\<lambda>g. r_id g \<noteq> gid) (groups_tbl b)"
    by (auto simp: list_all_iff)
  from ref have v: "list_ex (\<lambda>v. vr_group_id v = Some gid) (videos_tbl b)"
    by (auto simp: list_ex_iff)
  show ?thesis
    using varchar255_cases [of "to_param (g_name updates)"] g v new
    by (auto simp: pg_updateGroup_def update_group_def js_or_def Let_def varchar255_fits
        split: option.splits)
qed

text \<open>
  C1. In the relational backend, \<open>updateGroup("g1", {id: "g2", name: "Cats"})\<close> on a
  database holding the group \<open>g1\<close> and one video of that group fails with a foreign-key
  violation and changes nothing: the video is not re-pointed to \<open>g2\<close> and the group with
  the old id remains.
\<close>

theorem pg_updateGroup_rename_violates_fk:
  "pg_updateGroup db0 ''g1'' \<lparr> g_id = Str ''g2'', g_name = Str ''Cats'', g_description = Undefined \<rparr>
     = (db0, Inl ForeignKeyViolation)"
  by (simp add: pg_updateGroup_def update_group_def db0_def js_or_def varchar255_def)

section \<open>Creating a video\<close>

lemma file_createVideo_id: "v_id (snd (file_createVideo now d v)) = Str (toString now)"
  by (simp add: file_createVideo_def Let_def)

lemma insert_video_Inr:
  "insert_video b p1 p2 p3 p4 p5 = (b', Inr n) \<Longrightarrow>
     n = videos_id_seq b + 1 \<and> videos_id_seq b' = n"
  by (auto simp: insert_video_def Let_def split: if_splits sum.splits option.splits)

text \<open>
  In both backends the id of the returned record is the one the storage layer assigns,
  whatever id the caller sent; in the relational backend two calls in sequence that both
  return a record return different ids.
\<close>

lemma pg_createVideo_id:
  "pg_createVideo b v = (b', Inr v') \<Longrightarrow>
     v' = v\<lparr>v_id := Str (toString (videos_id_seq b + 1))\<rparr> \<and>
     videos_id_seq b' = videos_id_seq b + 1"
  by (auto simp: pg_createVideo_def split: prod.splits sum.splits dest: insert_video_Inr)

lemma pg_createVideo_distinct:
  assumes "pg_createVideo b v = (b1, Inr v1)" "pg_createVideo b1 w = (b2, Inr w1)"
  shows "v_id v1 \<noteq> v_id w1"
  using pg_createVideo_id [OF assms(1)] pg_createVideo_id [OF assms(2)]
  by (auto dest: toString_inj)

text \<open>
  C5. In the flat-file backend the id is the reading of the clock. Two \<open>createVideo\<close>
  calls in sequence for which \<open>Date.now()\<close> gives the same millisecond return records
  with the same id, and the document then holds two videos with that id.
\<close>

theorem file_createVideo_same_clock:
  "v_id (snd (file_createVideo 1700000000000 file0 clip)) =
     v_id (snd (file_createVideo 1700000000000
                  (fst (file_createVideo 1700000000000 file0 clip)) clip)) \<and>
   map v_id (videos (fst (file_createVideo 1700000000000
                            (fst (file_createVideo 1700000000000
                                    \<lparr> groups = [cats], videos = [] \<rparr> clip)) clip))) =
     [Str ''1700000000000'', Str ''1700000000000'']"
  by (simp add: file_createVideo_def Let_def file_getData_def file_saveData_def
      toString.simps digit_def)

section \<open>Creating a group\<close>

text \<open>
  What the relational backend does with an id that is already present: the \<open>INSERT\<close> is
  refused and the database stays as it was; the refusal is the duplicate key of the
  primary key whenever the name is a string that fits its column.
\<close>

lemma pg_createGroup_duplicate:
  assumes "g_id g = Str i" "length i \<le> 255" "i \<in> set (map r_id (groups_tbl b))"
  shows "(\<exists>e. pg_createGroup b g = (b, Inl e)) \<and>
         (\<forall>n. g_name g = Str n \<and> length n \<le> 255 \<longrightarrow>
              pg_createGroup b g = (b, Inl UniqueViolation))"
  using assms varchar255_cases [of "to_param (g_name g)"]
  by (auto simp: pg_createGroup_def insert_group_def varchar255_fits split: option.splits)

text \<open>The flat-file backend looks nothing up: it appends and returns the group.\<close>

lemma file_createGroup_appends:
  "file_createGroup d g = (d\<lparr>groups := groups d @ [g]\<rparr>, g)"
  by (simp add: file_createGroup_def file_getData_def file_saveData_def Let_def)

text \<open>
  C3. The dataset \<open>file0\<close> holds a group with id \<open>g1\<close>. In the flat-file backend
  \<open>createGroup({id: "g1", name: "Copy"})\<close> does not fail: it returns the group and leaves
  two groups with the id \<open>g1\<close> in the dataset. The relational backend, holding the same
  group, refuses the same call with the duplicate key of its primary key and stays
  unchanged.
\<close>

theorem file_createGroup_accepts_duplicate:
  "g_id (cats\<lparr>g_name := Str ''Copy''\<rparr>) \<in> set (map g_id (groups file0)) \<and>
   file_createGroup file0 (cats\<lparr>g_name := Str ''Copy''\<rparr>) =
     (file0\<lparr>groups := [cats, cats\<lparr>g_name := Str ''Copy''\<rparr>]\<rparr>,
      cats\<lparr>g_name := Str ''Copy''\<rparr>) \<and>
   map g_id (groups (fst (file_createGroup file0 (cats\<lparr>g_name := Str ''Copy''\<rparr>)))) =
     [Str ''g1'', Str ''g1''] \<and>
   pg_createGroup db0 (cats\<lparr>g_name := Str ''Copy''\<rparr>) = (db0, Inl UniqueViolation)"
  by (simp add: file_createGroup_def file_getData_def file_saveData_def Let_def file0_def cats_def
      pg_createGroup_def insert_group_def varchar255_def db0_def js_or_def)

lemma file_createGroup_once:
  assumes "g_id g \<notin> set (map g_id (groups d))"
  shows "length (filter (\<lambda>x. x = g) (file_getGroups (fst (file_createGroup d g)))) = 1"
proof -
  from assms have "filter (\<lambda>x. x = g) (groups d) = []"
    by (auto simp: filter_empty_conv)
  then show ?thesis
    by (simp add: file_createGroup_def file_getGroups_def file_getData_def file_saveData_def Let_def)
qed

lemma pg_createGroup_ok:
  assumes "g_id g = Str i" "length i \<le> 255" "g_name g = Str n" "length n \<le> 255"
    and "i \<notin> set (map r_id (groups_tbl b))"
  shows "pg_createGroup b g =
           (b\<lparr>groups_tbl := groups_tbl b @
                [\<lparr> r_id = i, r_name = n,
                   r_description = to_param (js_or (g_description g) Null) \<rparr>]\<rparr>,
            Inr g)"
  using assms by (simp add: pg_createGroup_def insert_group_def varchar255_fits)

lemma pg_createGroup_once:
  assumes "g_id g = Str i" "length i \<le> 255" "g_name g = Str n" "length n \<le> 255"
    and fresh: "i \<notin> set (map r_id (groups_tbl b))"
  shows "length (filter (\<lambda>x. x = g\<lparr>g_description := js_or (g_description g) Null\<rparr>)
                   (pg_getGroups (fst (pg_createGroup b g)))) = 1"
proof -
  let ?g' = "g\<lparr>g_description := js_or (g_description g) Null\<rparr>"
  let ?row = "\<lparr> r_id = i, r_name = n, r_description = to_param (js_or (g_description g) Null) \<rparr>"
  have old: "filter (\<lambda>r. group_of_row r = ?g') (groups_tbl b) = []"
  proof -
    have "group_of_row r \<noteq> ?g'" if "r \<in> set (groups_tbl b)" for r
    proof
      assume "group_of_row r = ?g'"
      then have "g_id (group_of_row r) = g_id ?g'" by simp
      with assms(1) have "r_id r = i" by (simp add: group_of_row_def)
      with that fresh show False by auto
    qed
    then show ?thesis by (auto simp: filter_empty_conv)
  qed
  have new: "group_of_row ?row = ?g'"
    by (rule group_of_row_new [OF assms(1) assms(3)])
  have "length (filter (\<lambda>x. x = ?g') (pg_getGroups (fst (pg_createGroup b g)))) =
        length (filter (\<lambda>r. group_of_row r = ?g') (groups_tbl b @ [?row]))"
    by (simp add: pg_createGroup_ok [OF assms] pg_getGroups_def select_groups_def
        filter_map comp_def count_sort_key)
  also have "\<dots> = 1"
    using old new by simp
  finally show ?thesis .
qed

text \<open>
  C8, as the code has it. After \<open>createGroup(g)\<close> of a group whose id is not yet
  present, \<open>listGroups()\<close> of the flat-file backend holds exactly one entry equal to
  \<open>g\<close>. In the relational backend (id and name strings of at most 255 characters) the
  call returns \<open>g\<close> and the list holds exactly one entry equal to \<open>g\<close> with its
  description as the column stores it: the description itself when it is a non-empty
  string, \<open>null\<close> when it is absent, \<open>null\<close> or empty.
\<close>

theorem createGroup_then_listGroups:
  "(g_id g \<notin> set (map g_id (groups d)) \<longrightarrow>
      snd (file_createGroup d g) = g \<and>
      length (filter (\<lambda>x. x = g) (file_getGroups (fst (file_createGroup d g)))) = 1) \<and>
   (g_id g = Str i \<and> length i \<le> 255 \<and> g_name g = Str n \<and> length n \<le> 255 \<and>
    i \<notin> set (map r_id (groups_tbl b)) \<longrightarrow>
      snd (pg_createGroup b g) = Inr g \<and>
      length (filter (\<lambda>x. x = g\<lparr>g_description := js_or (g_description g) Null\<rparr>)
                (pg_getGroups (fst (pg_createGroup b g)))) = 1)"
  using file_createGroup_once [of g d] file_createGroup_appends [of d g]
    pg_createGroup_ok [of g i n b] pg_createGroup_once [of g i n b]
  by simp

theorem createGroup_then_listGroups_witness:
  "file_getGroups (fst (file_createGroup file0 dogs)) = [cats, dogs] \<and>
   length (filter (\<lambda>x. x = dogs) (file_getGroups (fst (file_createGroup file0 dogs)))) = 1 \<and>
   snd (pg_createGroup db0 dogs) = Inr dogs \<and>
   length (filter (\<lambda>x. x = dogs) (pg_getGroups (fst (pg_createGroup db0 dogs)))) = 1"
  using createGroup_then_listGroups [of dogs file0 "''g2''" "''Dogs''" db0]
  by (simp add: file0_def db0_def dogs_def cats_def js_or_def
      file_createGroup_def file_getGroups_def file_getData_def file_saveData_def Let_def)

text \<open>
  The claim C8 fails in the relational backend for a group without a description:
  after \<open>createGroup({id: "g1", name: "Cats"})\<close> on the empty database the list is
  \<open>[{id: "g1", name: "Cats", description: null}]\<close>, in which no entry equals the group.
  The same list results for the group with the empty description \<open>""\<close>.
\<close>

theorem pg_createGroup_absent_description:
  "pg_createGroup db_empty cats =
     (\<lparr> groups_tbl = [\<lparr> r_id = ''g1'', r_name = ''Cats'', r_description = None \<rparr>],
         videos_tbl = [], videos_id_seq = 0 \<rparr>, Inr cats) \<and>
   pg_getGroups (fst (pg_createGroup db_empty cats)) =
     [\<lparr> g_id = Str ''g1'', g_name = Str ''Cats'', g_description = Null \<rparr>] \<and>
   cats \<notin> set (pg_getGroups (fst (pg_createGroup db_empty cats))) \<and>
   pg_getGroups (fst (pg_createGroup db_empty (cats\<lparr>g_description := Str ''''\<rparr>))) =
     [\<lparr> g_id = Str ''g1'', g_name = Str ''Cats'', g_description = Null \<rparr>]"
  by (simp add: pg_createGroup_def insert_group_def varchar255_def db_empty_def cats_def js_or_def
      pg_getGroups_def select_groups_def group_of_row_def)

section \<open>Listing the groups\<close>

text \<open>
  The relational backend returns every row of \<open>groups\<close>, once, ordered by name
  ascending.
\<close>

lemma pg_getGroups_ordered: "ordered_by_name (pg_getGroups b)"
proof -
  have "sorted (map r_name (select_groups b))"
    by (simp add: select_groups_def)
  then have "sorted_wrt (\<lambda>x y. r_name x \<le> r_name y) (select_groups b)"
    by (simp add: sorted_wrt_map)
  then show ?thesis
    by (simp add: ordered_by_name_def pg_getGroups_def sorted_wrt_map group_of_row_def)
qed

lemma pg_getGroups_all:
  "set (pg_getGroups b) = group_of_row ` set (groups_tbl b) \<and>
   length (pg_getGroups b) = length (groups_tbl b)"
  by (simp add: pg_getGroups_def select_groups_def)

text \<open>The flat-file backend returns the array of the document as it is stored.\<close>

lemma file_getGroups_stored: "file_getGroups d = groups d"
  by (simp add: file_getGroups_def file_getData_def)

text \<open>
  C7. A flat-file document that stores the group \<open>Dogs\<close> before the group \<open>Cats\<close> lists
  them in that order: \<open>listGroups()\<close> is not sorted by name. The relational backend,
  holding the same two groups in the same order, lists \<open>Cats\<close> before \<open>Dogs\<close>.
\<close>

theorem file_getGroups_unordered:
  "file_getGroups \<lparr> groups = [dogs, cats], videos = [] \<rparr> = [dogs, cats] \<and>
   \<not> ordered_by_name (file_getGroups \<lparr> groups = [dogs, cats], videos = [] \<rparr>) \<and>
   pg_getGroups db_two = [cats\<lparr>g_description := Null\<rparr>, dogs] \<and>
   ordered_by_name (pg_getGroups db_two)"
  by (simp add: ordered_by_name_def file_getGroups_def file_getData_def dogs_def cats_def
      pg_getGroups_def select_groups_def db_two_def group_of_row_def)

section \<open>Replacing the dataset\<close>

lemma file_roundtrip: "file_getData (file_saveData d dat) = dat"
  by (simp add: file_getData_def file_saveData_def)

lemma pg_saveData_one:
  assumes G: "g_id G = Str i" "length i \<le> 255" "g_name G = Str n" "length n \<le> 255"
    and V: "v_groupId V = Str i" "v_url V = Str u" "v_username V = Str w" "length w \<le> 255"
    and seq: "videos_id_seq b < 2147483647"
  shows "pg_saveData b \<lparr> p_groups = Some [G], p_videos = Some [V] \<rparr> =
           (\<lparr> groups_tbl = [\<lparr> r_id = i, r_name = n,
                                r_description = to_param (js_or (g_description G) Null) \<rparr>],
               videos_tbl = [\<lparr> vr_id = videos_id_seq b + 1, vr_group_id = Some i, vr_url = u,
                                vr_username = w,
                                vr_caption = to_param (js_or (v_caption V) Null),
                                vr_description = to_param (js_or (v_description V) Null) \<rparr>],
               videos_id_seq = videos_id_seq b + 1 \<rparr>, Inr ())"
  using assms
  by (simp add: pg_saveData_def delete_all_videos_def delete_all_groups_def insert_group_def
      insert_video_def varchar255_fits fk_ok_def Let_def)

lemma pg_roundtrip:
  assumes G: "g_id G = Str i" "length i \<le> 255" "g_name G = Str n" "length n \<le> 255"
    and V: "v_groupId V = Str i" "v_url V = Str u" "v_username V = Str w" "length w \<le> 255"
    and seq: "videos_id_seq b < 2147483647"
  shows "snd (pg_saveData b \<lparr> p_groups = Some [G], p_videos = Some [V] \<rparr>) = Inr () \<and>
         pg_getData (fst (pg_saveData b \<lparr> p_groups = Some [G], p_videos = Some [V] \<rparr>)) =
           \<lparr> groups = [G\<lparr>g_description := js_or (g_description G) Null\<rparr>],
              videos = [V\<lparr>v_id := Str (toString (videos_id_seq b + 1)),
                          v_caption := js_or (v_caption V) Null,
                          v_description := js_or (v_description V) Null\<rparr>] \<rparr>"
  by (simp add: pg_saveData_one [OF assms] pg_getData_def pg_getGroups_def pg_getVideos_def
      select_groups_def select_videos_def group_of_row_new [OF G(1) G(3)]
      video_of_row_new [OF V(1) V(2) V(3)])

text \<open>
  C4, as the code has it. In the flat-file backend \<open>getAll()\<close> after
  \<open>replaceAll({groups: [G], videos: [V]})\<close> is the payload itself, the video with the id
  it came with. In the relational backend, for \<open>G\<close> with string id and name and \<open>V\<close>
  of that group with string url and username (id, name and username of at most 255
  characters, the sequence not exhausted), the call succeeds and \<open>getAll()\<close> returns one
  group and one video: id, name, groupId, url and username as given, the video's id the
  next value of the sequence, and each optional field (the group's description, the
  video's caption and description) as given when it is a non-empty string and \<open>null\<close>
  when it is absent, \<open>null\<close> or empty.
\<close>

theorem replaceAll_then_getAll:
  "file_getData (file_saveData d \<lparr> groups = [G], videos = [V] \<rparr>) =
     \<lparr> groups = [G], videos = [V] \<rparr> \<and>
   (g_id G = Str i \<and> length i \<le> 255 \<and> g_name G = Str n \<and> length n \<le> 255 \<and>
    v_groupId V = Str i \<and> v_url V = Str u \<and> v_username V = Str w \<and> length w \<le> 255 \<and>
    videos_id_seq b < 2147483647 \<longrightarrow>
      snd (pg_saveData b \<lparr> p_groups = Some [G], p_videos = Some [V] \<rparr>) = Inr () \<and>
      pg_getData (fst (pg_saveData b \<lparr> p_groups = Some [G], p_videos = Some [V] \<rparr>)) =
        \<lparr> groups = [G\<lparr>g_description := js_or (g_description G) Null\<rparr>],
           videos = [V\<lparr>v_id := Str (toString (videos_id_seq b + 1)),
                       v_caption := js_or (v_caption V) Null,
                       v_description := js_or (v_description V) Null\<rparr>] \<rparr>)"
  using file_roundtrip [of d "\<lparr> groups = [G], videos = [V] \<rparr>"] pg_roundtrip [of G i n V u w b]
  by blast

theorem replaceAll_then_getAll_witness:
  "file_getData (file_saveData file0 \<lparr> groups = [dogs], videos = [clip\<lparr>v_groupId := Str ''g2''\<rparr>] \<rparr>) =
     \<lparr> groups = [dogs], videos = [clip\<lparr>v_groupId := Str ''g2''\<rparr>] \<rparr> \<and>
   pg_getData (fst (pg_saveData db0
       \<lparr> p_groups = Some [dogs], p_videos = Some [clip\<lparr>v_groupId := Str ''g2''\<rparr>] \<rparr>)) =
     \<lparr> groups = [dogs],
        videos = [clip\<lparr>v_id := Str ''2'', v_groupId := Str ''g2'', v_caption := Null,
                      v_description := Null\<rparr>] \<rparr>"
  using replaceAll_then_getAll
    [of file0 dogs "clip\<lparr>v_groupId := Str ''g2''\<rparr>" "''g2''" "''Dogs''" "''http://x''" "''u''" db0]
  by (simp add: dogs_def clip_def db0_def js_or_def toString.simps digit_def)

text \<open>
  The claim C4 fails in the relational backend for a video whose caption is the empty
  string: after \<open>replaceAll\<close> the caption read back is \<open>null\<close>.
\<close>

theorem pg_roundtrip_empty_caption:
  "map v_caption (videos (pg_getData (fst (pg_saveData db_empty
      \<lparr> p_groups = Some [cats], p_videos = Some [clip\<lparr>v_caption := Str ''''\<rparr>] \<rparr>)))) = [Null] \<and>
   v_caption (clip\<lparr>v_caption := Str ''''\<rparr>) = Str ''''"
  by (simp add: pg_saveData_def delete_all_videos_def delete_all_groups_def insert_group_def
      insert_video_def varchar255_def fk_ok_def Let_def db_empty_def cats_def clip_def js_or_def
      pg_getData_def pg_getVideos_def select_videos_def video_of_row_def)

section \<open>Updating a group\<close>

lemma merged_spread: "merged old patch (spread_field old patch)"
  by (simp add: merged_def spread_field_def)

lemma file_updateGroup_absent:
  "Str gid \<notin> set (map g_id (groups d)) \<Longrightarrow> file_updateGroup d gid p = (d, None)"
proof -
  assume "Str gid \<notin> set (map g_id (groups d))"
  then have "findIndex (\<lambda>g. g_id g = Str gid) (groups d) = None"
    by (force simp: findIndex_None_iff)
  then show ?thesis by (simp add: file_updateGroup_def file_getData_def)
qed

lemma file_updateGroup_merges:
  assumes "Str gid \<in> set (map g_id (groups d))"
  shows "\<exists>old g'. old \<in> set (groups d) \<and> g_id old = Str gid \<and>
           snd (file_updateGroup d gid p) = Some g' \<and>
           g' \<in> set (groups (fst (file_updateGroup d gid p))) \<and>
           merged (g_id old) (g_id p) (g_id g') \<and>
           merged (g_name old) (g_name p) (g_name g') \<and>
           merged (g_description old) (g_description p) (g_description g')"
proof -
  from assms have "findIndex (\<lambda>g. g_id g = Str gid) (groups d) \<noteq> None"
    by (auto simp: findIndex_None_iff)
  then obtain i where i: "findIndex (\<lambda>g. g_id g = Str gid) (groups d) = Some i"
    by blast
  from findIndex_Some_nth [OF i] have n: "i < length (groups d)" "g_id (groups d ! i) = Str gid"
    by simp_all
  let ?old = "groups d ! i"
  let ?g' = "spread_group ?old p"
  have r: "file_updateGroup d gid p =
          (\<lparr> groups = (groups d)[i := ?g'],
              videos = (if truthy (g_id p) \<and> g_id p \<noteq> Str gid
                    then map (\<lambda>v. if v_groupId v = Str gid
                                   then v\<lparr>v_groupId := g_id p\<rparr> else v) (videos d)
                    else videos d) \<rparr>, Some ?g')"
    using i by (simp add: file_updateGroup_def file_getData_def file_saveData_def Let_def)
  have "?old \<in> set (groups d)" using n(1) by simp
  moreover have "?g' \<in> set ((groups d)[i := ?g'])"
    using n(1) by (simp add: set_update_memI)
  ultimately show ?thesis
    using n(2) r by (auto simp: spread_group_def merged_spread intro!: exI [of _ ?old])
qed

lemma pg_updateGroup_absent:
  assumes "gid \<notin> set (map r_id (groups_tbl b))" "fits255 (g_id p)" "fits255 (g_name p)"
    "length gid \<le> 255"
  shows "pg_updateGroup b gid p = (b, Inr None)"
proof -
  from assms(1) have g: "list_all (\<lambda>g. r_id g \<noteq> gid) (groups_tbl b)"
    by (auto simp: list_all_iff)
  have "fits255 (js_or (g_id p) (Str gid))"
    using assms(2,4) by (simp add: js_or_def fits255_def)
  then show ?thesis
    using g assms(3)
    by (simp add: pg_updateGroup_def update_group_def varchar255_param_fits first_row_def)
qed

lemma pg_updateGroup_name_absent:
  assumes "gid \<in> set (map r_id (groups_tbl b))" "to_param (g_name p) = None" "fits255 (g_id p)"
    "length gid \<le> 255"
  shows "pg_updateGroup b gid p = (b, Inl NotNullViolation)"
proof -
  from assms(1) have g: "\<not> list_all (\<lambda>g. r_id g \<noteq> gid) (groups_tbl b)"
    by (auto simp: list_all_iff)
  have "fits255 (js_or (g_id p) (Str gid))"
    using assms(3,4) by (simp add: js_or_def fits255_def)
  then show ?thesis
    using g assms(2)
    by (simp add: pg_updateGroup_def update_group_def varchar255_param_fits varchar255_None
        split: option.splits)
qed

lemma update_group_rows:
  assumes "update_group b p1 p2 p3 gid = (b', Inr rows)"
  shows "rows = [] \<and> b' = b \<or>
         (\<exists>iv nv. varchar255 p1 = Inr (Some iv) \<and> varchar255 p2 = Inr (Some nv) \<and>
            gid \<in> set (map r_id (groups_tbl b)) \<and>
            rows = [\<lparr> r_id = iv, r_name = nv, r_description = p3 \<rparr>] \<and>
            b' = b\<lparr>groups_tbl :=
                    map (\<lambda>g. if r_id g = gid
                             then \<lparr> r_id = iv, r_name = nv, r_description = p3 \<rparr> else g)
                      (groups_tbl b)\<rparr>)"
  using assms
  by (auto simp: update_group_def Let_def list_all_iff
      split: sum.splits if_splits option.splits)

lemma pg_updateGroup_overwrites:
  assumes "pg_updateGroup b gid p = (b', Inr (Some g'))" "fits255 (g_id p)" "fits255 (g_name p)"
    "length gid \<le> 255"
  shows "g_id g' = js_or (g_id p) (Str gid) \<and> g_name g' = g_name p \<and>
         g_description g' = js_or (g_description p) Null \<and> g' \<in> set (pg_getGroups b')"
proof -
  let ?p1 = "to_param (js_or (g_id p) (Str gid))"
  let ?p2 = "to_param (g_name p)"
  let ?p3 = "to_param (js_or (g_description p) Null)"
  have f: "fits255 (js_or (g_id p) (Str gid))"
    using assms(2,4) by (simp add: js_or_def fits255_def)
  have v1: "varchar255 ?p1 = Inr ?p1"
    by (rule varchar255_param_fits [OF f])
  have v2: "varchar255 ?p2 = Inr ?p2"
    by (rule varchar255_param_fits [OF assms(3)])
  from assms(1) obtain rows where
    u: "update_group b ?p1 ?p2 ?p3 gid = (b', Inr rows)" and
    fr: "map_option group_of_row (first_row rows) = Some g'"
    by (auto simp: pg_updateGroup_def split: prod.splits sum.splits)
  from fr have "rows \<noteq> []" by (auto simp: first_row_def)
  with update_group_rows [OF u] v1 v2 obtain iv nv where
    r: "?p1 = Some iv" "?p2 = Some nv" "gid \<in> set (map r_id (groups_tbl b))"
       "rows = [\<lparr> r_id = iv, r_name = nv, r_description = ?p3 \<rparr>]"
       "b' = b\<lparr>groups_tbl :=
               map (\<lambda>g. if r_id g = gid
                        then \<lparr> r_id = iv, r_name = nv, r_description = ?p3 \<rparr> else g)
                 (groups_tbl b)\<rparr>"
    by auto
  from fr r(4) have g': "g' = group_of_row \<lparr> r_id = iv, r_name = nv, r_description = ?p3 \<rparr>"
    by (simp add: first_row_def)
  from r(1) have i: "js_or (g_id p) (Str gid) = Str iv" by (simp add: to_param_Some)
  from r(2) have n: "g_name p = Str nv" by (simp add: to_param_Some)
  from r(3) obtain x where x: "x \<in> set (groups_tbl b)" "r_id x = gid" by auto
  have "\<lparr> r_id = iv, r_name = nv, r_description = ?p3 \<rparr> \<in> set (groups_tbl b')"
    unfolding r(5) using x by (auto simp: image_iff intro!: bexI [of _ x])
  then have "g' \<in> set (pg_getGroups b')"
    by (simp add: g' pg_getGroups_def select_groups_def)
  then show ?thesis
    using i n by (simp add: g' group_of_row_def from_sql_to_param_or)
qed

text \<open>
  When the statement goes through, the relational backend replaces the row by one built
  from the patch alone: the name of the patch, the description \<open>patch.description || null\<close>
  and the id \<open>patch.id || id\<close>.
\<close>

lemma pg_updateGroup_success:
  assumes grp: "gid \<in> set (map r_id (groups_tbl b))"
    and new: "js_or (g_id p) (Str gid) = Str iv" "length iv \<le> 255"
    and name: "g_name p = Str nv" "length nv \<le> 255"
    and free: "iv = gid \<or>
               (iv \<notin> set (map r_id (groups_tbl b)) \<and>
                Some gid \<notin> set (map vr_group_id (videos_tbl b)))"
  shows "pg_updateGroup b gid p =
           (b\<lparr>groups_tbl :=
                map (\<lambda>g. if r_id g = gid
                         then \<lparr> r_id = iv, r_name = nv,
                                r_description = to_param (js_or (g_description p) Null) \<rparr>
                         else g) (groups_tbl b)\<rparr>,
            Inr (Some \<lparr> g_id = Str iv, g_name = Str nv,
                        g_description = js_or (g_description p) Null \<rparr>))"
proof -
  from grp have g: "\<not> list_all (\<lambda>g. r_id g \<noteq> gid) (groups_tbl b)"
    by (auto simp: list_all_iff)
  from free have f: "iv \<noteq> gid \<Longrightarrow> iv \<notin> set (map r_id (groups_tbl b))"
    "iv \<noteq> gid \<Longrightarrow> \<not> list_ex (\<lambda>v. vr_group_id v = Some gid) (videos_tbl b)"
    by (force simp: list_ex_iff)+
  show ?thesis
    using g f new name
    by (cases "iv = gid")
      (simp_all add: pg_updateGroup_def update_group_def varchar255_fits first_row_def Let_def
        group_of_row_def from_sql_to_param_or)
qed

text \<open>
  C6. The relational backend stores the group \<open>g2\<close> with the name \<open>Dogs\<close> and the
  description \<open>barking\<close>. \<open>updateGroup("g2", {name: "Hounds"})\<close>, a patch without a
  description, returns and stores the description \<open>null\<close>: the previous value is lost.
  \<open>updateGroup("g2", {description: "purring"})\<close>, a patch without a name, throws the
  not-null violation of the column \<open>name\<close> and changes nothing. The flat-file backend,
  holding the same group, merges both patches: the field absent from the patch keeps its
  previous value.
\<close>

theorem pg_updateGroup_drops_description:
  "pg_getGroups db_dogs = [dogs] \<and>
   pg_updateGroup db_dogs ''g2'' \<lparr> g_id = Undefined, g_name = Str ''Hounds'', g_description = Undefined \<rparr>
     = (\<lparr> groups_tbl = [\<lparr> r_id = ''g2'', r_name = ''Hounds'', r_description = None \<rparr>],
          videos_tbl = [], videos_id_seq = 0 \<rparr>,
        Inr (Some \<lparr> g_id = Str ''g2'', g_name = Str ''Hounds'', g_description = Null \<rparr>)) \<and>
   pg_updateGroup db_dogs ''g2'' \<lparr> g_id = Undefined, g_name = Undefined, g_description = Str ''purring'' \<rparr>
     = (db_dogs, Inl NotNullViolation) \<and>
   file_updateGroup \<lparr> groups = [dogs], videos = [] \<rparr> ''g2''
       \<lparr> g_id = Undefined, g_name = Str ''Hounds'', g_description = Undefined \<rparr>
     = (\<lparr> groups = [dogs\<lparr>g_name := Str ''Hounds''\<rparr>], videos = [] \<rparr>,
        Some (dogs\<lparr>g_name := Str ''Hounds''\<rparr>)) \<and>
   file_updateGroup \<lparr> groups = [dogs], videos = [] \<rparr> ''g2''
       \<lparr> g_id = Undefined, g_name = Undefined, g_description = Str ''purring'' \<rparr>
     = (\<lparr> groups = [dogs\<lparr>g_description := Str ''purring''\<rparr>], videos = [] \<rparr>,
        Some (dogs\<lparr>g_description := Str ''purring''\<rparr>))"
  by (simp add: pg_updateGroup_def update_group_def db_dogs_def js_or_def varchar255_def first_row_def
      Let_def group_of_row_def pg_getGroups_def select_groups_def dogs_def
      file_updateGroup_def file_getData_def file_saveData_def spread_group_def spread_field_def)

section \<open>Updating a video\<close>

text \<open>
  The relational \<open>UPDATE videos\<close> names five columns, none of them \<open>id\<close>: no id of
  the table changes, whatever the patch and the outcome, and a record returned carries
  the id the call selected.
\<close>

lemma update_video_ids:
  "update_video b p1 p2 p3 p4 p5 vid = (b', r) \<Longrightarrow>
     map vr_id (videos_tbl b') = map vr_id (videos_tbl b)"
  by (auto simp: update_video_def Let_def map_if_same_key comp_def
      split: sum.splits if_splits option.splits)

lemma pg_updateVideo_ids:
  "pg_updateVideo b vid p = (b', r) \<Longrightarrow> map vr_id (videos_tbl b') = map vr_id (videos_tbl b)"
  by (auto simp: pg_updateVideo_def split: prod.splits sum.splits dest: update_video_ids)

lemma update_video_rows:
  "update_video b p1 p2 p3 p4 p5 vid = (b', Inr rows) \<Longrightarrow>
     \<exists>k. int4in vid = Inr k \<and>
         (rows = [] \<or> (\<exists>r. rows = [r] \<and> vr_id r = k \<and> k \<in> set (map vr_id (videos_tbl b))))"
  by (auto simp: update_video_def Let_def list_all_iff
      split: sum.splits if_splits option.splits)

lemma pg_updateVideo_id:
  assumes "pg_updateVideo b vid p = (b', Inr (Some v'))"
  shows "\<exists>k. int4in vid = Inr k \<and> k \<in> set (map vr_id (videos_tbl b)) \<and>
             v_id v' = Str (toString k)"
proof -
  from assms obtain rows where
    u: "update_video b (to_param (v_groupId p)) (to_param (v_url p)) (to_param (v_username p))
          (to_param (js_or (v_caption p) Null)) (to_param (js_or (v_description p) Null)) vid
        = (b', Inr rows)" and
    fr: "map_option video_of_row (first_row rows) = Some v'"
    by (auto simp: pg_updateVideo_def split: prod.splits sum.splits)
  from fr have "rows \<noteq> []" by (auto simp: first_row_def)
  with update_video_rows [OF u] obtain k r where
    "int4in vid = Inr k" "rows = [r]" "vr_id r = k" "k \<in> set (map vr_id (videos_tbl b))"
    by auto
  with fr show ?thesis
    by (auto simp: first_row_def video_of_row_def)
qed

lemma pg_updateVideo_same_id:
  assumes "pg_updateVideo b (toString k) p = (b', Inr (Some v'))"
  shows "v_id v' = Str (toString k)"
  using pg_updateVideo_id [OF assms] by (auto dest!: int4in_Inr simp: from_digits_toString)

text \<open>
  The flat-file backend spreads the patch over the stored video; a patch without an \<open>id\<close>
  field leaves the ids of the document as they were.
\<close>

lemma file_updateVideo_result:
  assumes "file_updateVideo d vid p = (d', Some v')"
  shows "\<exists>i. i < length (videos d) \<and> v_id (videos d ! i) = Str vid \<and>
             v' = spread_video (videos d ! i) p \<and> d' = d\<lparr>videos := (videos d)[i := v']\<rparr>"
proof -
  from assms obtain i where i: "findIndex (\<lambda>v. v_id v = Str vid) (videos d) = Some i"
    by (auto simp: file_updateVideo_def file_getData_def split: option.splits)
  from findIndex_Some_nth [OF i] assms i show ?thesis
    by (auto simp: file_updateVideo_def file_getData_def file_saveData_def Let_def)
qed

lemma file_updateVideo_id:
  assumes "file_updateVideo d vid p = (d', Some v')"
  shows "(v_id p = Undefined \<longrightarrow>
            v_id v' = Str vid \<and> map v_id (videos d') = map v_id (videos d)) \<and>
         (v_id p \<noteq> Undefined \<longrightarrow> v_id v' = v_id p)"
proof -
  from file_updateVideo_result [OF assms] obtain i where
    i: "i < length (videos d)" "v_id (videos d ! i) = Str vid"
       "v' = spread_video (videos d ! i) p" "d' = d\<lparr>videos := (videos d)[i := v']\<rparr>"
    by blast
  have "v_id p = Undefined \<Longrightarrow> map v_id ((videos d)[i := v']) = map v_id (videos d)"
    using i(1,2,3) by (simp add: map_update spread_video_def spread_field_def list_update_same_conv)
  then show ?thesis
    using i by (auto simp: spread_video_def spread_field_def)
qed

text \<open>
  In the flat-file backend a patch with an \<open>id\<close> field writes that id: the record
  returned carries it and is the one stored in place of the video of the call.
\<close>

lemma file_updateVideo_patch_id:
  assumes "file_updateVideo d vid p = (d', Some v')" "v_id p \<noteq> Undefined"
  shows "v_id v' = v_id p \<and> v' \<in> set (videos d') \<and>
         (\<exists>i. i < length (videos d) \<and> v_id (videos d ! i) = Str vid \<and>
              videos d' = (videos d)[i := v'])"
proof -
  from file_updateVideo_result [OF assms(1)] obtain i where
    i: "i < length (videos d)" "v_id (videos d ! i) = Str vid"
       "v' = spread_video (videos d ! i) p" "d' = d\<lparr>videos := (videos d)[i := v']\<rparr>"
    by blast
  from i(1,4) have "v' \<in> set (videos d')"
    by (simp add: set_update_memI)
  moreover from i(3) assms(2) have "v_id v' = v_id p"
    by (simp add: spread_video_def spread_field_def)
  moreover from i(4) have "videos d' = (videos d)[i := v']"
    by simp
  ultimately show ?thesis
    using i(1,2) by blast
qed

text \<open>
  C9. The flat-file document \<open>file0\<close> stores one video, with id \<open>1700000000000\<close>. After
  \<open>updateVideo("1700000000000", patch)\<close> with a patch that contains \<open>id: "42"\<close> the video
  returned and the video stored have the id \<open>42\<close>: the id is written like any other
  field. The relational backend, given a patch with \<open>id: "42"\<close> for its video \<open>1\<close>,
  returns and stores the video with the id \<open>1\<close>.
\<close>

theorem file_updateVideo_overwrites_id:
  "map v_id (videos file0) = [Str ''1700000000000''] \<and>
   file_updateVideo file0 ''1700000000000'' (clip\<lparr>v_id := Str ''42''\<rparr>) =
     (\<lparr> groups = [cats], videos = [clip\<lparr>v_id := Str ''42''\<rparr>] \<rparr>,
      Some (clip\<lparr>v_id := Str ''42''\<rparr>)) \<and>
   map v_id (videos (fst (file_updateVideo file0 ''1700000000000'' (clip\<lparr>v_id := Str ''42''\<rparr>)))) =
     [Str ''42''] \<and>
   pg_updateVideo db0 ''1'' (clip\<lparr>v_id := Str ''42''\<rparr>) =
     (db0, Inr (Some (clip\<lparr>v_id := Str ''1'', v_caption := Null, v_description := Null\<rparr>)))"
  by (simp add: file_updateVideo_def file_getData_def file_saveData_def file0_def clip_def
      spread_video_def spread_field_def Let_def cats_def
      pg_updateVideo_def update_video_def db0_def int4in_def is_digit_def
      from_digits_def digit_val_def varchar255_def fk_ok_def js_or_def first_row_def
      video_of_row_def toString.simps digit_def)

section \<open>The two relational implementations\<close>

lemma db_saveData_or_empty:
  "db_saveData b dat =
     pg_saveData b \<lparr> p_groups = Some (or_empty (p_groups dat)),
                     p_videos = Some (or_empty (p_videos dat)) \<rparr>"
  by (simp add: db_saveData_def pg_saveData_def Let_def split: prod.splits sum.splits)

lemma db_pg_same:
  "db_getData b = pg_getData b \<and> db_getGroups b = pg_getGroups b \<and>
   db_getVideos b = pg_getVideos b \<and>
   db_createGroup b g = pg_createGroup b g \<and> db_updateGroup b gid g = pg_updateGroup b gid g \<and>
   db_deleteGroup b gid = pg_deleteGroup b gid \<and> db_createVideo b v = pg_createVideo b v \<and>
   db_updateVideo b vid v = pg_updateVideo b vid v \<and> db_deleteVideo b vid = pg_deleteVideo b vid"
  by (simp add: db_getData_def pg_getData_def db_getGroups_def pg_getGroups_def db_getVideos_def
      pg_getVideos_def db_createGroup_def pg_createGroup_def db_updateGroup_def pg_updateGroup_def
      db_deleteGroup_def pg_deleteGroup_def db_createVideo_def pg_createVideo_def
      db_updateVideo_def pg_updateVideo_def db_deleteVideo_def pg_deleteVideo_def)

text \<open>
  C10, as the code has it. The adapter \<open>createPgStorage\<close> and the standalone module give
  the same result and the same database for every operation and every input in which a
  bulk-replace payload carries both arrays. For any payload, \<open>saveData\<close> of the standalone
  module is \<open>saveData\<close> of the adapter on the payload with each missing array put in as
  the empty array.
\<close>

theorem pg_implementations_agree:
  "db_saveData b \<lparr> p_groups = Some gs, p_videos = Some vs \<rparr> =
     pg_saveData b \<lparr> p_groups = Some gs, p_videos = Some vs \<rparr> \<and>
   db_saveData b dat =
     pg_saveData b \<lparr> p_groups = Some (or_empty (p_groups dat)),
                     p_videos = Some (or_empty (p_videos dat)) \<rparr> \<and>
   db_getData b = pg_getData b \<and> db_getGroups b = pg_getGroups b \<and>
   db_getVideos b = pg_getVideos b \<and>
   db_createGroup b g = pg_createGroup b g \<and> db_updateGroup b gid g = pg_updateGroup b gid g \<and>
   db_deleteGroup b gid = pg_deleteGroup b gid \<and> db_createVideo b v = pg_createVideo b v \<and>
   db_updateVideo b vid v = pg_updateVideo b vid v \<and> db_deleteVideo b vid = pg_deleteVideo b vid"
  using db_saveData_or_empty [of b dat]
    db_saveData_or_empty [of b "\<lparr> p_groups = Some gs, p_videos = Some vs \<rparr>"]
    db_pg_same [of b g gid v vid]
  by (simp add: or_empty_def)

theorem pg_implementations_agree_witness:
  "db_saveData db0 \<lparr> p_groups = Some [dogs], p_videos = Some [] \<rparr> =
     pg_saveData db0 \<lparr> p_groups = Some [dogs], p_videos = Some [] \<rparr> \<and>
   db_saveData db0 \<lparr> p_groups = Some [dogs], p_videos = None \<rparr> =
     pg_saveData db0 \<lparr> p_groups = Some [dogs], p_videos = Some [] \<rparr> \<and>
   pg_saveData db0 \<lparr> p_groups = Some [dogs], p_videos = Some [] \<rparr> =
     (\<lparr> groups_tbl = [\<lparr> r_id = ''g2'', r_name = ''Dogs'', r_description = Some ''barking'' \<rparr>],
         videos_tbl = [], videos_id_seq = 1 \<rparr>, Inr ())"
  using pg_implementations_agree [of db0 "[dogs]" "[]" "\<lparr> p_groups = Some [dogs], p_videos = None \<rparr>"]
  by (simp add: or_empty_def pg_saveData_def delete_all_videos_def delete_all_groups_def db0_def
      dogs_def insert_group_def varchar255_def js_or_def Let_def)

text \<open>
  The claim C10 fails on a payload without its arrays. For the body \<open>{}\<close> the adapter
  runs the two \<open>DELETE\<close>s and then throws a \<open>TypeError\<close>, where the standalone module
  returns normally; for \<open>{groups: [g]}\<close> the adapter inserts the group and then throws,
  where the standalone module returns normally. The database is the same in both.
\<close>

theorem pg_saveData_missing_array:
  "pg_saveData db0 \<lparr> p_groups = None, p_videos = None \<rparr> =
     (\<lparr> groups_tbl = [], videos_tbl = [], videos_id_seq = 1 \<rparr>, Inl TypeError) \<and>
   db_saveData db0 \<lparr> p_groups = None, p_videos = None \<rparr> =
     (\<lparr> groups_tbl = [], videos_tbl = [], videos_id_seq = 1 \<rparr>, Inr ()) \<and>
   pg_saveData db0 \<lparr> p_groups = Some [dogs], p_videos = None \<rparr> =
     (\<lparr> groups_tbl = [\<lparr> r_id = ''g2'', r_name = ''Dogs'', r_description = Some ''barking'' \<rparr>],
         videos_tbl = [], videos_id_seq = 1 \<rparr>, Inl TypeError) \<and>
   db_saveData db0 \<lparr> p_groups = Some [dogs], p_videos = None \<rparr> =
     (\<lparr> groups_tbl = [\<lparr> r_id = ''g2'', r_name = ''Dogs'', r_description = Some ''barking'' \<rparr>],
         videos_tbl = [], videos_id_seq = 1 \<rparr>, Inr ())"
  by (simp add: pg_saveData_def db_saveData_def or_empty_def delete_all_videos_def
      delete_all_groups_def db0_def dogs_def insert_group_def varchar255_def js_or_def Let_def)

end
